theory Spec2Isabelle
  imports Main "HOL-Library.AList"
begin

section \<open>JavaScript values\<close>

text \<open>
  The values the Video Tool handles: \<^verbatim>\<open>undefined\<close>, \<^verbatim>\<open>null\<close>, booleans, integral
  numbers, strings and plain objects. An object is its list of own properties in
  insertion order. Host objects (a \<^verbatim>\<open>File\<close>, a \<^verbatim>\<open>Blob\<close>, a DOM element) are objects
  with the properties the tool reads. \<^verbatim>\<open>NaN\<close>, fractions, symbols, functions and
  objects with accessors or a prototype of their own are outside the model.
\<close>

datatype jsval =
    JUndefined
  | JNull
  | JBool bool
  | JNum int
  | JStr string
  | JObj "(string \<times> jsval) list"

datatype js_error = TypeError | Rejected jsval

type_synonym 'a result = "js_error + 'a"

text \<open>Sequencing of a computation that may throw: the first throw wins.\<close>

fun bind_res :: "'a result \<Rightarrow> ('a \<Rightarrow> 'b result) \<Rightarrow> 'b result" where
  "bind_res (Inl e) f = Inl e"
| "bind_res (Inr v) f = f v"

text \<open>\<^verbatim>\<open>ToBoolean\<close>: what \<^verbatim>\<open>if\<close>, \<^verbatim>\<open>&&\<close> and \<^verbatim>\<open>||\<close> test.\<close>

fun truthy :: "jsval \<Rightarrow> bool" where
  "truthy JUndefined = False"
| "truthy JNull = False"
| "truthy (JBool b) = b"
| "truthy (JNum n) = (n \<noteq> 0)"
| "truthy (JStr s) = (s \<noteq> [])"
| "truthy (JObj kvs) = True"

text \<open>
  Property read \<^verbatim>\<open>v.k\<close> (or \<^verbatim>\<open>v[k]\<close>): a \<^verbatim>\<open>TypeError\<close> on \<^verbatim>\<open>undefined\<close> and
  \<^verbatim>\<open>null\<close>, the own property of an object or \<^verbatim>\<open>undefined\<close> when it is absent, and
  \<^verbatim>\<open>undefined\<close> on a primitive (none of the keys the tool reads, \<^verbatim>\<open>file\<close>, \<^verbatim>\<open>url\<close>,
  \<^verbatim>\<open>caption\<close>, \<^verbatim>\<open>success\<close>, \<^verbatim>\<open>type\<close>, \<^verbatim>\<open>detail\<close>, \<^verbatim>\<open>data\<close>, \<^verbatim>\<open>src\<close> and the tune
  names, is a member of a built-in prototype).
\<close>

definition lookup :: "(string \<times> jsval) list \<Rightarrow> string \<Rightarrow> jsval" where
  "lookup kvs k = (case map_of kvs k of None \<Rightarrow> JUndefined | Some v \<Rightarrow> v)"

fun get_prop :: "jsval \<Rightarrow> string \<Rightarrow> jsval result" where
  "get_prop JUndefined k = Inl TypeError"
| "get_prop JNull k = Inl TypeError"
| "get_prop (JObj kvs) k = Inr (lookup kvs k)"
| "get_prop v k = Inr JUndefined"

text \<open>
  The value of \<^verbatim>\<open>v.k\<close> for stating results: \<^verbatim>\<open>undefined\<close> stands in where the
  read would throw.
\<close>

definition prop_of :: "jsval \<Rightarrow> string \<Rightarrow> jsval" where
  "prop_of v k = (case get_prop v k of Inr r \<Rightarrow> r | Inl e \<Rightarrow> JUndefined)"

text \<open>\<^verbatim>\<open>a || b\<close> with both operands already evaluated.\<close>

definition or_js :: "jsval \<Rightarrow> jsval \<Rightarrow> jsval" where
  "or_js a b = (if truthy a then a else b)"

section \<open>validate\<close>

text \<open>
  \<^verbatim>\<open>validate(savedData) { return savedData.file && savedData.file.url }\<close>:
  \<^verbatim>\<open>&&\<close> yields its left operand when that is falsy and its right operand otherwise.
\<close>

definition validate :: "jsval \<Rightarrow> jsval result" where
  "validate savedData =
     bind_res (get_prop savedData ''file'') (\<lambda>file.
       if truthy file then get_prop file ''url'' else Inr file)"

section \<open>The block record, the collaborators and the tool instance\<close>

text \<open>
  Every call the tool makes on a collaborator (the Presenter \<^verbatim>\<open>this.ui\<close>, the
  Uploader, the Editor Host's \<^verbatim>\<open>api\<close> and \<^verbatim>\<open>block\<close>, the console and \<^verbatim>\<open>fetch\<close>) is
  recorded, in order, with its arguments.
\<close>

datatype effect =
    FillCaption jsval
  | FillVideo jsval
  | ApplyTune string jsval
  | ShowPreloader jsval
  | HidePreloader
  | NotifierShow string string
  | ConsoleLog string jsval
  | ConsoleError jsval
  | UploadByFile jsval
  | UploadByUrl jsval
  | Fetch jsval
  | SetBlockStretched jsval

record tune =
  name :: string
  icon :: string
  title :: string
  toggle :: bool

text \<open>\<^verbatim>\<open>static get tunes()\<close>: the three built-in tunes, in the order of the source.\<close>

definition tunes :: "tune list" where
  "tunes =
     [\<lparr>name = ''withBorder'', icon = ''IconAddBorder'', title = ''With border'', toggle = True\<rparr>,
      \<lparr>name = ''stretched'', icon = ''IconStretch'', title = ''Stretch image'', toggle = True\<rparr>,
      \<lparr>name = ''withBackground'', icon = ''IconAddBackground'', title = ''With background'',
        toggle = True\<rparr>]"

type_synonym addr = nat
type_synonym obj = "(string \<times> jsval) list"

text \<open>
  The tool instance. The record \<^verbatim>\<open>this._data\<close> is an object of the heap, held by
  reference: \<open>data_ref\<close> is its address and \<open>heap\<close> maps every address to the
  properties of the object there. The values stored in the record are kept by value.
  \<open>cfg_actions\<close> is \<^verbatim>\<open>this.config.actions\<close>, \<open>i18n_t\<close> is the host's
  \<^verbatim>\<open>api.i18n.t\<close>, \<open>effects\<close> the collaborator calls made so far and \<open>microtasks\<close>
  the queue of pending promise jobs of \<^verbatim>\<open>Promise.resolve().then(...).catch(...)\<close>:
  \<open>StretchJob v\<close> is the \<^verbatim>\<open>then\<close> callback that will write \<open>v\<close> to
  \<^verbatim>\<open>block.stretched\<close>, \<open>CatchJob err\<close> the \<^verbatim>\<open>catch\<close> callback of a write that threw
  \<open>err\<close>.
\<close>

datatype job = StretchJob jsval | CatchJob jsval

record tool =
  cfg_actions :: "tune list"
  i18n_t :: "string \<Rightarrow> string"
  heap :: "addr \<Rightarrow> obj"
  data_ref :: addr
  effects :: "effect list"
  microtasks :: "job list"

text \<open>\<^verbatim>\<open>get data() { return this._data }\<close> returns the reference.\<close>

definition data_get :: "tool \<Rightarrow> addr" where
  "data_get st = data_ref st"

text \<open>The properties of the record, read through the reference.\<close>

definition the_data :: "tool \<Rightarrow> obj" where
  "the_data st = heap st (data_ref st)"

text \<open>\<^verbatim>\<open>this._data[k] = v\<close>: an existing key keeps its place, a new one is appended.\<close>

definition set_field :: "string \<Rightarrow> jsval \<Rightarrow> tool \<Rightarrow> tool" where
  "set_field k v st =
     st\<lparr>heap := (heap st)(data_ref st := AList.update k v (heap st (data_ref st)))\<rparr>"

definition emit :: "effect \<Rightarrow> tool \<Rightarrow> tool" where
  "emit e st = st\<lparr>effects := effects st @ [e]\<rparr>"

subsection \<open>setTune and tuneToggled\<close>

text \<open>
  \<^verbatim>\<open>setTune(tuneName, value)\<close> writes the record, calls \<^verbatim>\<open>ui.applyTune\<close> and, for
  \<^verbatim>\<open>'stretched'\<close>, queues one job that will assign \<^verbatim>\<open>block.stretched\<close>.
\<close>

definition setTune :: "string \<Rightarrow> jsval \<Rightarrow> tool \<Rightarrow> tool" where
  "setTune tuneName val st =
     (let st1 = set_field tuneName val st;
          st2 = emit (ApplyTune tuneName val) st1
      in if tuneName = ''stretched''
         then st2\<lparr>microtasks := microtasks st2 @ [StretchJob val]\<rparr>
         else st2)"

definition tuneToggled :: "string \<Rightarrow> tool \<Rightarrow> tool" where
  "tuneToggled tuneName st =
     setTune tuneName (JBool (\<not> truthy (lookup (the_data st) tuneName))) st"

text \<open>
  One turn of the microtask queue, which runs its oldest job. The \<^verbatim>\<open>then\<close> callback
  runs \<^verbatim>\<open>this.block.stretched = value\<close>; \<open>block_set\<close> is the host's setter: \<open>None\<close>
  when the assignment returns, \<open>Some err\<close> when it throws \<open>err\<close> (also when
  \<^verbatim>\<open>this.block\<close> is undefined), which rejects the promise and queues the \<^verbatim>\<open>catch\<close>
  callback. The \<^verbatim>\<open>catch\<close> callback runs \<^verbatim>\<open>console.error(err)\<close>.
\<close>

definition run_microtask :: "(jsval \<Rightarrow> jsval option) \<Rightarrow> tool \<Rightarrow> tool" where
  "run_microtask block_set st =
     (case microtasks st of
        [] \<Rightarrow> st
      | StretchJob v # rest \<Rightarrow>
          (let st1 = emit (SetBlockStretched v) (st\<lparr>microtasks := rest\<rparr>)
           in case block_set v of
                None \<Rightarrow> st1
              | Some err \<Rightarrow> st1\<lparr>microtasks := microtasks st1 @ [CatchJob err]\<rparr>)
      | CatchJob err # rest \<Rightarrow> emit (ConsoleError err) (st\<lparr>microtasks := rest\<rparr>))"

subsection \<open>The video setter\<close>

text \<open>
  \<^verbatim>\<open>set video(file) { this._data.file = file || {}
     if (file && file.url) { this.ui.fillVideo(file.url) } }\<close>
\<close>

definition set_video :: "jsval \<Rightarrow> tool \<Rightarrow> tool result" where
  "set_video file st =
     (let st1 = set_field ''file'' (or_js file (JObj [])) st
      in if truthy file
         then bind_res (get_prop file ''url'') (\<lambda>url.
                Inr (if truthy url then emit (FillVideo url) st1 else st1))
         else Inr st1)"

subsection \<open>The data setter and the constructor\<close>

text \<open>
  The body of \<^verbatim>\<open>VideoTool.tunes.forEach\<close> in \<^verbatim>\<open>set data\<close>:
  \<^verbatim>\<open>typeof data[tune] !== 'undefined' ? data[tune] === true || data[tune] === 'true' : false\<close>.
\<close>

definition tune_value :: "jsval \<Rightarrow> jsval" where
  "tune_value d =
     JBool (if d \<noteq> JUndefined then d = JBool True \<or> d = JStr ''true'' else False)"

fun set_tunes :: "jsval \<Rightarrow> tune list \<Rightarrow> tool \<Rightarrow> tool result" where
  "set_tunes data [] st = Inr st"
| "set_tunes data (t # ts) st =
     bind_res (get_prop data (name t)) (\<lambda>d.
       set_tunes data ts (setTune (name t) (tune_value d) st))"

definition set_data :: "jsval \<Rightarrow> tool \<Rightarrow> tool result" where
  "set_data data st =
     bind_res (get_prop data ''file'') (\<lambda>file.
     bind_res (set_video file st) (\<lambda>st1.
     bind_res (get_prop data ''caption'') (\<lambda>caption.
       let st2 = set_field ''caption'' (or_js caption (JStr [])) st1;
           st3 = emit (FillCaption (lookup (the_data st2) ''caption'')) st2
       in set_tunes data tunes st3)))"

text \<open>
  The constructor, as far as the state goes: \<^verbatim>\<open>actions: config.actions || []\<close>,
  \<^verbatim>\<open>this._data = {}\<close> (a fresh object, at the address \<open>a\<close> the allocator gives, in the
  heap \<open>h\<close> of the caller) and \<^verbatim>\<open>this.data = data\<close>.
\<close>

definition init_tool :: "tune list \<Rightarrow> (string \<Rightarrow> string) \<Rightarrow> (addr \<Rightarrow> obj) \<Rightarrow> addr \<Rightarrow> tool" where
  "init_tool acts t h a =
     \<lparr>cfg_actions = acts, i18n_t = t, heap = h(a := []), data_ref = a,
      effects = [], microtasks = []\<rparr>"

definition constructor :: "jsval \<Rightarrow> tune list option \<Rightarrow> (string \<Rightarrow> string) \<Rightarrow>
    (addr \<Rightarrow> obj) \<Rightarrow> addr \<Rightarrow> tool result" where
  "constructor data config_actions t h a =
     set_data data
       (init_tool (case config_actions of None \<Rightarrow> [] | Some acts \<Rightarrow> acts) t h a)"

subsection \<open>renderSettings\<close>

text \<open>
  The control specification of \<^verbatim>\<open>renderSettings\<close> for every tune of
  \<^verbatim>\<open>VideoTool.tunes.concat(this.config.actions)\<close>; the \<^verbatim>\<open>onActivate\<close> closure is left out.
\<close>

record control =
  c_icon :: string
  c_label :: string
  c_name :: string
  c_toggle :: bool
  c_isActive :: jsval

definition renderSettings :: "tool \<Rightarrow> control list" where
  "renderSettings st =
     map (\<lambda>tn. \<lparr>c_icon = icon tn, c_label = i18n_t st (title tn), c_name = name tn,
                c_toggle = toggle tn, c_isActive = lookup (the_data st) (name tn)\<rparr>)
       (tunes @ cfg_actions st)"

subsection \<open>Upload completion and failure\<close>

text \<open>
  The message of the notification, in UTF-8: its apostrophe is U+2019.
\<close>

definition upload_failed_message :: string where
  "upload_failed_message =
     ''Couldn'' @ [CHR 0xE2, CHR 0x80, CHR 0x99] @ ''t upload video. Please try another.''"

definition uploadingFailed :: "jsval \<Rightarrow> tool \<Rightarrow> tool" where
  "uploadingFailed errorText st =
     emit HidePreloader
       (emit (NotifierShow (i18n_t st upload_failed_message) ''error'')
         (emit (ConsoleLog ''Video Tool: uploading failed because of'' errorText) st))"

text \<open>
  \<^verbatim>\<open>onUpload(response)\<close>; \<open>stringify\<close> is \<^verbatim>\<open>JSON.stringify\<close>, whose text only reaches
  the console.
\<close>

definition onUpload :: "(jsval \<Rightarrow> string) \<Rightarrow> jsval \<Rightarrow> tool \<Rightarrow> tool result" where
  "onUpload stringify response st =
     (let failed = Inr (uploadingFailed (JStr (''incorrect response: '' @ stringify response)) st)
      in bind_res (get_prop response ''success'') (\<lambda>success.
           if truthy success
           then bind_res (get_prop response ''file'') (\<lambda>file.
                  if truthy file then set_video file st else failed)
           else failed))"

subsection \<open>save\<close>

text \<open>
  \<^verbatim>\<open>save() { this._data.caption = caption.innerHTML; return this.data }\<close>, with the
  \<^verbatim>\<open>innerHTML\<close> of the Presenter's caption node as \<open>innerHTML\<close>. The result is the
  reference the getter returns.
\<close>

definition save :: "string \<Rightarrow> tool \<Rightarrow> addr \<times> tool" where
  "save innerHTML st =
     (let st1 = set_field ''caption'' (JStr innerHTML) st
      in (data_get st1, st1))"

subsection \<open>Paste handling\<close>

text \<open>
  \<^verbatim>\<open>uploadFile\<close> hands the file to the Uploader (the \<^verbatim>\<open>onPreview\<close> callback it passes is
  the Uploader's to call); \<^verbatim>\<open>uploadUrl\<close> shows the preloader, then calls the Uploader.
\<close>

definition uploadFile :: "jsval \<Rightarrow> tool \<Rightarrow> tool" where
  "uploadFile file st = emit (UploadByFile file) st"

definition uploadUrl :: "jsval \<Rightarrow> tool \<Rightarrow> tool" where
  "uploadUrl url st = emit (UploadByUrl url) (emit (ShowPreloader url) st)"

text \<open>
  \<^verbatim>\<open>/^blob:/.test(v)\<close> converts \<open>v\<close> to a string first; the string of no value other
  than a string starts with \<^verbatim>\<open>blob:\<close>.
\<close>

fun blob_test :: "jsval \<Rightarrow> bool" where
  "blob_test (JStr s) = (take 5 s = ''blob:'')"
| "blob_test v = False"

text \<open>
  \<^verbatim>\<open>async onPaste(event)\<close>. \<open>fetch_blob\<close> is \<^verbatim>\<open>fetch(src)\<close> followed by
  \<^verbatim>\<open>response.blob()\<close>: the blob, or the rejection of either promise. An error result
  is the rejection of the promise \<^verbatim>\<open>onPaste\<close> returns.
\<close>

definition onPaste :: "(jsval \<Rightarrow> jsval result) \<Rightarrow> jsval \<Rightarrow> tool \<Rightarrow> tool result" where
  "onPaste fetch_blob event st =
     bind_res (get_prop event ''type'') (\<lambda>ty.
       if ty = JStr ''tag'' then
         bind_res (get_prop event ''detail'') (\<lambda>detail.
         bind_res (get_prop detail ''data'') (\<lambda>video.
         bind_res (get_prop video ''src'') (\<lambda>src.
           if blob_test src
           then bind_res (fetch_blob src) (\<lambda>file.
                  Inr (uploadFile file (emit (Fetch src) st)))
           else Inr (uploadUrl src st))))
       else if ty = JStr ''pattern'' then
         bind_res (get_prop event ''detail'') (\<lambda>detail.
         bind_res (get_prop detail ''data'') (\<lambda>url.
           Inr (uploadUrl url st)))
       else if ty = JStr ''file'' then
         bind_res (get_prop event ''detail'') (\<lambda>detail.
         bind_res (get_prop detail ''file'') (\<lambda>file.
           Inr (uploadFile file st)))
       else Inr st)"

section \<open>The file invariant and the reachable states\<close>

text \<open>The heap in which no object has a property.\<close>

definition empty_heap :: "addr \<Rightarrow> obj" where
  "empty_heap a = []"

text \<open>
  What the data model asks of the \<^verbatim>\<open>file\<close> field: an empty mapping, or a mapping whose
  \<^verbatim>\<open>url\<close> is a non-empty string.
\<close>

fun file_ok :: "jsval \<Rightarrow> bool" where
  "file_ok (JObj kvs) =
     (kvs = [] \<or> (case lookup kvs ''url'' of JStr s \<Rightarrow> s \<noteq> [] | _ \<Rightarrow> False))"
| "file_ok v = False"

text \<open>
  A file value as the declared input types have it (\<^verbatim>\<open>VideoToolData\<close>,
  \<^verbatim>\<open>UploadResponseFormat\<close>: the \<^verbatim>\<open>url\<close> is required): absent or falsy, or a mapping
  that satisfies \<open>file_ok\<close>.
\<close>

definition file_input_ok :: "jsval \<Rightarrow> bool" where
  "file_input_ok f = (\<not> truthy f \<or> file_ok f)"

text \<open>
  The states a block goes through when every file value it is given is well-formed:
  construction, upload completion, the file setter, and the operations that do not
  write the file (failure handling, save, the built-in tunes, paste, a microtask).
\<close>

inductive reachable :: "tool \<Rightarrow> bool" where
  r_constructor:
    "get_prop data ''file'' = Inr f \<Longrightarrow> file_input_ok f \<Longrightarrow>
     constructor data config_actions t h a = Inr st \<Longrightarrow> reachable st"
| r_onUpload:
    "reachable st \<Longrightarrow> get_prop response ''file'' = Inr f \<Longrightarrow> file_input_ok f \<Longrightarrow>
     onUpload stringify response st = Inr st' \<Longrightarrow> reachable st'"
| r_set_video:
    "reachable st \<Longrightarrow> file_input_ok f \<Longrightarrow> set_video f st = Inr st' \<Longrightarrow> reachable st'"
| r_uploadingFailed:
    "reachable st \<Longrightarrow> reachable (uploadingFailed errorText st)"
| r_save:
    "reachable st \<Longrightarrow> reachable (snd (save innerHTML st))"
| r_setTune:
    "reachable st \<Longrightarrow> tuneName \<in> set (map name tunes) \<Longrightarrow> reachable (setTune tuneName v st)"
| r_tuneToggled:
    "reachable st \<Longrightarrow> tuneName \<in> set (map name tunes) \<Longrightarrow> reachable (tuneToggled tuneName st)"
| r_onPaste:
    "reachable st \<Longrightarrow> onPaste fetch_blob event st = Inr st' \<Longrightarrow> reachable st'"
| r_microtask:
    "reachable st \<Longrightarrow> reachable (run_microtask block_set st)"

section \<open>The paste pattern\<close>

text \<open>
  A JavaScript string is a sequence of UTF-16 code units. \<open>cu\<close> gives the code units
  of an ASCII literal of the source.
\<close>

type_synonym code_unit = nat

definition cu :: "string \<Rightarrow> code_unit list" where
  "cu s = map of_char s"

text \<open>
  The code units \<^verbatim>\<open>\s\<close> matches (white space and line terminators): TAB, LF, VT, FF,
  CR, SP, U+00A0, U+1680, U+2000 to U+200A, U+2028, U+2029, U+202F, U+205F, U+3000
  and U+FEFF.
\<close>

definition is_white :: "code_unit \<Rightarrow> bool" where
  "is_white c \<longleftrightarrow>
     c \<in> set [9, 10, 11, 12, 13, 32, 160, 5760, 8232, 8233, 8239, 8287, 12288, 65279]
     \<or> (8192 \<le> c \<and> c \<le> 8202)"

text \<open>
  \<^verbatim>\<open>Canonicalize\<close> of a pattern with the \<^verbatim>\<open>i\<close> flag and without the \<^verbatim>\<open>u\<close> flag: the
  upper case of the code unit. It maps \<^verbatim>\<open>a\<close> to \<^verbatim>\<open>z\<close> to \<^verbatim>\<open>A\<close> to \<^verbatim>\<open>Z\<close>, fixes the
  other ASCII code units and never maps a code unit from 128 on to an ASCII one;
  since every character of the pattern below is ASCII, a code unit from 128 on is
  left as it is here.
\<close>

definition canon :: "code_unit \<Rightarrow> code_unit" where
  "canon c = (if 97 \<le> c \<and> c \<le> 122 then c - 32 else c)"

text \<open>
  The pattern syntax the tool uses: a literal character, \<^verbatim>\<open>\S\<close>, a class range
  \<^verbatim>\<open>lo-hi\<close>; sequence, alternative and \<^verbatim>\<open>*\<close>.
\<close>

datatype atom = Lit char | NonSpace | Between char char

datatype rx = Never | Eps | Atom atom | Cat rx rx | Alt rx rx | Star rx

text \<open>
  One code unit against one atom; \<open>ic\<close> is the \<^verbatim>\<open>ignoreCase\<close> flag, under which a
  character matches when its canonical form is that of the literal, or of some
  member of the range. \<^verbatim>\<open>\S\<close> is the complement of \<^verbatim>\<open>\s\<close> under either flag (no
  white space code unit is the upper case of another code unit).
\<close>

fun atom_match :: "bool \<Rightarrow> atom \<Rightarrow> code_unit \<Rightarrow> bool" where
  "atom_match ic (Lit p) c = (if ic then canon c = canon (of_char p) else c = of_char p)"
| "atom_match ic NonSpace c = (\<not> is_white c)"
| "atom_match ic (Between lo hi) c =
     (if ic then list_ex (\<lambda>a. canon a = canon c) [of_char lo ..< Suc (of_char hi)]
      else of_char lo \<le> c \<and> c \<le> of_char hi)"

text \<open>
  Matching by derivatives: \<open>matches ic r s\<close> holds when the pattern can consume
  exactly \<open>s\<close>. The pattern has no back reference, look-around or lazy quantifier,
  so whether the backtracking matcher of the engine finds a match does not depend
  on the order in which it tries the alternatives.
\<close>

fun nullable :: "rx \<Rightarrow> bool" where
  "nullable Never = False"
| "nullable Eps = True"
| "nullable (Atom a) = False"
| "nullable (Cat r s) = (nullable r \<and> nullable s)"
| "nullable (Alt r s) = (nullable r \<or> nullable s)"
| "nullable (Star r) = True"

fun deriv :: "bool \<Rightarrow> code_unit \<Rightarrow> rx \<Rightarrow> rx" where
  "deriv ic c Never = Never"
| "deriv ic c Eps = Never"
| "deriv ic c (Atom a) = (if atom_match ic a c then Eps else Never)"
| "deriv ic c (Cat r s) =
     (if nullable r then Alt (Cat (deriv ic c r) s) (deriv ic c s) else Cat (deriv ic c r) s)"
| "deriv ic c (Alt r s) = Alt (deriv ic c r) (deriv ic c s)"
| "deriv ic c (Star r) = Cat (deriv ic c r) (Star r)"

fun matches :: "bool \<Rightarrow> rx \<Rightarrow> code_unit list \<Rightarrow> bool" where
  "matches ic r [] = nullable r"
| "matches ic r (c # cs) = matches ic (deriv ic c r) cs"

text \<open>
  \<^verbatim>\<open>RegExp.prototype.test\<close> for a pattern that ends in \<^verbatim>\<open>$\<close> and has neither the
  \<^verbatim>\<open>g\<close>, the \<^verbatim>\<open>y\<close> nor the \<^verbatim>\<open>m\<close> flag: the match may start at any index, from 0 on,
  and must end at the end of the string.
\<close>

fun search :: "bool \<Rightarrow> rx \<Rightarrow> code_unit list \<Rightarrow> bool" where
  "search ic r [] = matches ic r []"
| "search ic r (c # cs) = (matches ic r (c # cs) \<or> search ic r cs)"

text \<open>A run of literal characters, \<^verbatim>\<open>r?\<close>, \<^verbatim>\<open>r+\<close> and \<^verbatim>\<open>r1|r2|...\<close>.\<close>

fun lits :: "string \<Rightarrow> rx" where
  "lits [] = Eps"
| "lits (c # cs) = Cat (Atom (Lit c)) (lits cs)"

definition optional :: "rx \<Rightarrow> rx" where
  "optional r = Alt r Eps"

definition one_or_more :: "rx \<Rightarrow> rx" where
  "one_or_more r = Cat r (Star r)"

fun alts :: "rx list \<Rightarrow> rx" where
  "alts [] = Never"
| "alts [r] = r"
| "alts (r # rs) = Alt r (alts rs)"

text \<open>
  \<^verbatim>\<open>pasteConfig.patterns.video\<close>:
  \<^verbatim>\<open>/https?:\/\/\S+\.(avi|wmv|mov|webm|mpeg4|ts|mpg|rm|rmvb|mkv|mp4)(\?[a-z0-9=]*)?$/i\<close>
\<close>

definition extensions :: "string list" where
  "extensions =
     [''avi'', ''wmv'', ''mov'', ''webm'', ''mpeg4'', ''ts'', ''mpg'', ''rm'', ''rmvb'', ''mkv'',
      ''mp4'']"

definition video_pattern :: rx where
  "video_pattern =
     Cat (lits ''http'') (Cat (optional (Atom (Lit CHR ''s''))) (Cat (lits ''://'')
     (Cat (one_or_more (Atom NonSpace)) (Cat (Atom (Lit CHR ''.''))
     (Cat (alts (map lits extensions))
          (optional (Cat (Atom (Lit CHR ''?''))
                    (Star (alts [Atom (Between CHR ''a'' CHR ''z''),
                                 Atom (Between CHR ''0'' CHR ''9''),
                                 Atom (Lit CHR ''='')])))))))))"

definition pattern_test :: "code_unit list \<Rightarrow> bool" where
  "pattern_test s = search True video_pattern s"

subsection \<open>The language of a pattern\<close>

definition conc :: "'a list set \<Rightarrow> 'a list set \<Rightarrow> 'a list set" where
  "conc A B = {u @ v | u v. u \<in> A \<and> v \<in> B}"

inductive_set star :: "'a list set \<Rightarrow> 'a list set" for A :: "'a list set" where
  star_Nil: "[] \<in> star A"
| star_app: "u \<in> A \<Longrightarrow> v \<in> star A \<Longrightarrow> u @ v \<in> star A"

fun lang :: "bool \<Rightarrow> rx \<Rightarrow> code_unit list set" where
  "lang ic Never = {}"
| "lang ic Eps = {[]}"
| "lang ic (Atom a) = {[c] | c. atom_match ic a c}"
| "lang ic (Cat r s) = conc (lang ic r) (lang ic s)"
| "lang ic (Alt r s) = lang ic r \<union> lang ic s"
| "lang ic (Star r) = star (lang ic r)"

text \<open>Equality of a string with an ASCII literal up to the case of letters.\<close>

definition ci_eq :: "code_unit list \<Rightarrow> string \<Rightarrow> bool" where
  "ci_eq u w = (map canon u = map canon (cu w))"

text \<open>
  The code units of a query string: \<open>lower_query_unit\<close> is a lower-case letter, a
  digit or \<^verbatim>\<open>=\<close>; \<open>query_unit\<close> admits the upper-case letters too.
\<close>

definition lower_query_unit :: "code_unit \<Rightarrow> bool" where
  "lower_query_unit c \<longleftrightarrow> (97 \<le> c \<and> c \<le> 122) \<or> (48 \<le> c \<and> c \<le> 57) \<or> c = 61"

definition query_unit :: "code_unit \<Rightarrow> bool" where
  "query_unit c \<longleftrightarrow>
     (97 \<le> c \<and> c \<le> 122) \<or> (65 \<le> c \<and> c \<le> 90) \<or> (48 \<le> c \<and> c \<le> 57) \<or> c = 61"

text \<open>
  The specification's description of the pattern, in its own words: the string is
  an http or https URL that ends in one of the extensions (in either case),
  optionally followed by \<^verbatim>\<open>?\<close> and a query of lower-case letters, digits and \<^verbatim>\<open>=\<close>.
\<close>

definition spec_video_url :: "code_unit list \<Rightarrow> bool" where
  "spec_video_url s \<longleftrightarrow>
     (\<exists>scheme body ext query.
        s = scheme @ cu ''://'' @ body @ cu ''.'' @ ext @ query
        \<and> (ci_eq scheme ''http'' \<or> ci_eq scheme ''https'')
        \<and> body \<noteq> [] \<and> (\<forall>c\<in>set body. \<not> is_white c)
        \<and> (\<exists>e\<in>set extensions. ci_eq ext e)
        \<and> (query = [] \<or> (\<exists>q. query = cu ''?'' @ q \<and> (\<forall>c\<in>set q. lower_query_unit c))))"

section \<open>Basic facts\<close>

lemma data_ref_set_field [simp]: "data_ref (set_field k v st) = data_ref st"
  and effects_set_field [simp]: "effects (set_field k v st) = effects st"
  and microtasks_set_field [simp]: "microtasks (set_field k v st) = microtasks st"
  and cfg_actions_set_field [simp]: "cfg_actions (set_field k v st) = cfg_actions st"
  and i18n_t_set_field [simp]: "i18n_t (set_field k v st) = i18n_t st"
  and the_data_set_field [simp]: "the_data (set_field k v st) = AList.update k v (the_data st)"
  by (simp_all add: set_field_def the_data_def)

lemma heap_set_field:
  "heap (set_field k v st) a =
     (if a = data_ref st then AList.update k v (the_data st) else heap st a)"
  by (simp add: set_field_def the_data_def)

lemma data_ref_emit [simp]: "data_ref (emit e st) = data_ref st"
  and effects_emit [simp]: "effects (emit e st) = effects st @ [e]"
  and microtasks_emit [simp]: "microtasks (emit e st) = microtasks st"
  and cfg_actions_emit [simp]: "cfg_actions (emit e st) = cfg_actions st"
  and i18n_t_emit [simp]: "i18n_t (emit e st) = i18n_t st"
  and heap_emit [simp]: "heap (emit e st) = heap st"
  and the_data_emit [simp]: "the_data (emit e st) = the_data st"
  by (simp_all add: emit_def the_data_def)

lemma the_data_microtasks_update [simp]:
  "the_data (st\<lparr>microtasks := q\<rparr>) = the_data st"
  by (simp add: the_data_def)

lemma lookup_update [simp]:
  "lookup (AList.update k v al) k' = (if k' = k then v else lookup al k')"
  by (simp add: lookup_def update_conv')

lemma get_prop_total:
  "v \<noteq> JUndefined \<Longrightarrow> v \<noteq> JNull \<Longrightarrow> \<exists>r. get_prop v k = Inr r"
  by (cases v) simp_all

lemma get_prop_truthy: "truthy v \<Longrightarrow> \<exists>r. get_prop v k = Inr r"
  by (cases v) simp_all

lemma get_prop_Inr_iff: "(\<exists>r. get_prop v k = Inr r) \<longleftrightarrow> v \<noteq> JUndefined \<and> v \<noteq> JNull"
  by (cases v) simp_all

lemma the_data_setTune [simp]:
  "the_data (setTune n v st) = AList.update n v (the_data st)"
  by (simp add: setTune_def Let_def)

lemma data_ref_setTune [simp]: "data_ref (setTune n v st) = data_ref st"
  by (simp add: setTune_def Let_def)

lemma effects_setTune [simp]:
  "effects (setTune n v st) = effects st @ [ApplyTune n v]"
  by (simp add: setTune_def Let_def)

lemma cfg_actions_setTune [simp]: "cfg_actions (setTune n v st) = cfg_actions st"
  and i18n_t_setTune [simp]: "i18n_t (setTune n v st) = i18n_t st"
  by (simp_all add: setTune_def Let_def)

lemma microtasks_setTune:
  "microtasks (setTune n v st) =
     microtasks st @ (if n = ''stretched'' then [StretchJob v] else [])"
  by (simp add: setTune_def Let_def)

lemma heap_setTune:
  "heap (setTune n v st) a =
     (if a = data_ref st then AList.update n v (the_data st) else heap st a)"
  by (simp add: setTune_def Let_def heap_set_field)

lemma lookup_Nil [simp]: "lookup [] k = JUndefined"
  by (simp add: lookup_def)

lemma lookup_Cons [simp]:
  "lookup ((k, v) # al) k' = (if k' = k then v else lookup al k')"
  by (simp add: lookup_def)

lemma prop_of_falsy: "\<not> truthy f \<Longrightarrow> prop_of f k = JUndefined"
  by (cases f) (simp_all add: prop_of_def)

lemma prop_of_JObj [simp]: "prop_of (JObj kvs) k = lookup kvs k"
  by (simp add: prop_of_def)

lemma get_prop_prop_of:
  "v \<noteq> JUndefined \<Longrightarrow> v \<noteq> JNull \<Longrightarrow> get_prop v k = Inr (prop_of v k)"
  by (cases v) (simp_all add: prop_of_def)

lemma get_prop_Inr_prop_of: "get_prop v k = Inr r \<Longrightarrow> prop_of v k = r"
  by (simp add: prop_of_def)

lemma bind_res_Inr_iff [simp]:
  "bind_res x g = Inr y \<longleftrightarrow> (\<exists>v. x = Inr v \<and> g v = Inr y)"
  by (cases x) simp_all

lemma set_video_Inr:
  "set_video f st =
     Inr (let st1 = set_field ''file'' (or_js f (JObj [])) st
          in if truthy f \<and> truthy (prop_of f ''url'') then emit (FillVideo (prop_of f ''url'')) st1 else st1)"
  by (cases f) (simp_all add: set_video_def Let_def prop_of_def)

lemma data_ref_init [simp]: "data_ref (init_tool acts t h a) = a"
  and effects_init [simp]: "effects (init_tool acts t h a) = []"
  and microtasks_init [simp]: "microtasks (init_tool acts t h a) = []"
  and cfg_actions_init [simp]: "cfg_actions (init_tool acts t h a) = acts"
  and i18n_t_init [simp]: "i18n_t (init_tool acts t h a) = t"
  and the_data_init [simp]: "the_data (init_tool acts t h a) = []"
  by (simp_all add: init_tool_def the_data_def)

lemma the_data_uploadingFailed [simp]: "the_data (uploadingFailed e st) = the_data st"
  and heap_uploadingFailed [simp]: "heap (uploadingFailed e st) = heap st"
  and data_ref_uploadingFailed [simp]: "data_ref (uploadingFailed e st) = data_ref st"
  and microtasks_uploadingFailed [simp]: "microtasks (uploadingFailed e st) = microtasks st"
  and effects_uploadingFailed:
    "effects (uploadingFailed e st) = effects st @
       [ConsoleLog ''Video Tool: uploading failed because of'' e,
        NotifierShow (i18n_t st upload_failed_message) ''error'', HidePreloader]"
  by (simp_all add: uploadingFailed_def)

lemma the_data_run_microtask: "the_data (run_microtask block_set s) = the_data s"
  by (simp add: run_microtask_def Let_def split: list.splits job.splits option.splits)

lemma effects_run_microtask:
  "effects (run_microtask block_set s) = effects s @
     (case microtasks s of [] \<Rightarrow> []
      | StretchJob v # rest \<Rightarrow> [SetBlockStretched v]
      | CatchJob err # rest \<Rightarrow> [ConsoleError err])"
  by (simp add: run_microtask_def Let_def split: list.splits job.splits option.splits)

lemma run_StretchJob:
  "microtasks s = StretchJob v # rest \<Longrightarrow>
     effects (run_microtask block_set s) = effects s @ [SetBlockStretched v]
     \<and> microtasks (run_microtask block_set s) =
          rest @ (case block_set v of None \<Rightarrow> [] | Some err \<Rightarrow> [CatchJob err])"
  by (simp add: run_microtask_def Let_def split: option.splits)

lemma run_CatchJob:
  "microtasks s = CatchJob err # rest \<Longrightarrow>
     effects (run_microtask block_set s) = effects s @ [ConsoleError err]
     \<and> microtasks (run_microtask block_set s) = rest"
  by (simp add: run_microtask_def)

lemma run_empty: "microtasks s = [] \<Longrightarrow> run_microtask block_set s = s"
  by (simp add: run_microtask_def)

lemma stretched_two_steps:
  assumes "microtasks st = []"
  shows "effects (run_microtask block_set (run_microtask block_set (setTune ''stretched'' v st)))
           = effects st @ [ApplyTune ''stretched'' v, SetBlockStretched v]
               @ (case block_set v of None \<Rightarrow> [] | Some err \<Rightarrow> [ConsoleError err])
         \<and> microtasks (run_microtask block_set (run_microtask block_set
               (setTune ''stretched'' v st))) = []"
proof -
  let ?s1 = "setTune ''stretched'' v st"
  let ?s2 = "run_microtask block_set ?s1"
  have q1: "microtasks ?s1 = StretchJob v # []"
    using assms by (simp add: microtasks_setTune)
  note step1 = run_StretchJob [OF q1, of block_set]
  show ?thesis
  proof (cases "block_set v")
    case None
    with step1 have "microtasks ?s2 = []" by simp
    then have "run_microtask block_set ?s2 = ?s2" by (rule run_empty)
    with step1 None show ?thesis by simp
  next
    case (Some err)
    with step1 have q2: "microtasks ?s2 = CatchJob err # []" by simp
    from run_CatchJob [OF q2, of block_set] step1 Some show ?thesis by simp
  qed
qed

lemma the_data_set_video:
  "set_video f st = Inr st' \<Longrightarrow>
     the_data st' = AList.update ''file'' (or_js f (JObj [])) (the_data st)
     \<and> data_ref st' = data_ref st \<and> cfg_actions st' = cfg_actions st"
  by (auto simp: set_video_Inr Let_def)

lemma tune_value_eq: "tune_value d = JBool (d = JBool True \<or> d = JStr ''true'')"
  by (auto simp: tune_value_def)

lemma constructor_record:
  assumes "data \<noteq> JUndefined" and "data \<noteq> JNull"
  shows "\<exists>st. constructor data config_actions t h a = Inr st
    \<and> the_data st =
        [(''file'', or_js (prop_of data ''file'') (JObj [])),
         (''caption'', or_js (prop_of data ''caption'') (JStr [])),
         (''withBorder'', tune_value (prop_of data ''withBorder'')),
         (''stretched'', tune_value (prop_of data ''stretched'')),
         (''withBackground'', tune_value (prop_of data ''withBackground''))]
    \<and> data_ref st = a
    \<and> cfg_actions st = (case config_actions of None \<Rightarrow> [] | Some acts \<Rightarrow> acts)
    \<and> i18n_t st = t"
  by (simp add: constructor_def set_data_def get_prop_prop_of [OF assms] set_video_Inr
        Let_def tunes_def)

lemma constructor_projr:
  assumes "data \<noteq> JUndefined" and "data \<noteq> JNull"
  shows "\<not> isl (constructor data config_actions t h a)"
    and "the_data (projr (constructor data config_actions t h a)) =
        [(''file'', or_js (prop_of data ''file'') (JObj [])),
         (''caption'', or_js (prop_of data ''caption'') (JStr [])),
         (''withBorder'', tune_value (prop_of data ''withBorder'')),
         (''stretched'', tune_value (prop_of data ''stretched'')),
         (''withBackground'', tune_value (prop_of data ''withBackground''))]"
    and "cfg_actions (projr (constructor data config_actions t h a)) =
        (case config_actions of None \<Rightarrow> [] | Some acts \<Rightarrow> acts)"
  using constructor_record [OF assms, of config_actions t h a] by auto

lemma file_ok_or_js: "file_input_ok f \<Longrightarrow> file_ok (or_js f (JObj []))"
  by (auto simp: file_input_ok_def or_js_def)

lemma blob_test_iff: "blob_test src \<longleftrightarrow> (\<exists>r. src = JStr (''blob:'' @ r))"
proof (cases src)
  case (JStr s)
  have "take 5 s = ''blob:'' \<longleftrightarrow> (\<exists>r. s = ''blob:'' @ r)"
  proof
    assume "take 5 s = ''blob:''"
    then have "s = ''blob:'' @ drop 5 s" by (metis append_take_drop_id)
    then show "\<exists>r. s = ''blob:'' @ r" ..
  next
    assume "\<exists>r. s = ''blob:'' @ r"
    then show "take 5 s = ''blob:''" by auto
  qed
  with JStr show ?thesis by simp
qed simp_all

lemma the_data_onPaste: "onPaste fetch_blob event st = Inr st' \<Longrightarrow> the_data st' = the_data st"
  by (auto simp: onPaste_def uploadFile_def uploadUrl_def split: if_splits)

lemma file_onUpload:
  "onUpload stringify response st = Inr st' \<Longrightarrow> get_prop response ''file'' = Inr f \<Longrightarrow>
     lookup (the_data st') ''file'' = or_js f (JObj []) \<or> the_data st' = the_data st"
  by (auto simp: onUpload_def Let_def set_video_Inr split: if_splits)

lemma tune_names_not_file: "n \<in> set (map name tunes) \<Longrightarrow> n \<noteq> ''file''"
  by (auto simp: tunes_def)

section \<open>validate\<close>

lemma validate_truthy:
  "validate savedData = Inr r \<Longrightarrow>
     \<exists>f. get_prop savedData ''file'' = Inr f \<and>
       (truthy r \<longleftrightarrow> truthy f \<and> (\<exists>u. get_prop f ''url'' = Inr u \<and> truthy u))"
  unfolding validate_def
  by (cases "get_prop savedData ''file''") (auto split: if_splits)

text \<open>
  C1. \<^verbatim>\<open>validate\<close> is specified, and documented in the source, to return the
  boolean \<^verbatim>\<open>true\<close> exactly when \<^verbatim>\<open>record.file.url\<close> is a non-empty string and the
  boolean \<^verbatim>\<open>false\<close> otherwise. What it returns is the operand of \<^verbatim>\<open>&&\<close> itself: the
  url string for a record with a video, \<^verbatim>\<open>undefined\<close> for \<^verbatim>\<open>{file:{}}\<close> and for
  \<^verbatim>\<open>{}\<close>. None of the three results is a boolean; only the truthiness of the
  result is the specified one (\<open>validate_truthy\<close>).
\<close>

theorem validate_not_boolean:
  "validate (JObj [(''file'', JObj [(''url'', JStr ''http://x/v.mp4'')])])
     = Inr (JStr ''http://x/v.mp4'')
   \<and> validate (JObj [(''file'', JObj [])]) = Inr JUndefined
   \<and> validate (JObj []) = Inr JUndefined"
  by (simp add: validate_def)

section \<open>Construction\<close>

text \<open>
  C2, as the code has it. Construction from any input record (any value but
  \<^verbatim>\<open>undefined\<close> and \<^verbatim>\<open>null\<close>, on which the first property read throws) succeeds, and
  every tune of the static registry then has a boolean value in the block record:
  \<^verbatim>\<open>true\<close> exactly when the input value is the boolean \<^verbatim>\<open>true\<close> or the string
  \<^verbatim>\<open>"true"\<close>, \<^verbatim>\<open>false\<close> otherwise, also when the tune is absent from the input. The
  record has no key beyond \<^verbatim>\<open>file\<close>, \<^verbatim>\<open>caption\<close> and the three static tunes: the
  configured custom actions are given no value.
\<close>

theorem constructor_tunes_boolean:
  assumes "data \<noteq> JUndefined" and "data \<noteq> JNull"
  shows "\<exists>st. constructor data config_actions t h a = Inr st
    \<and> (\<forall>tn \<in> set tunes.
          lookup (the_data st) (name tn)
            = JBool (prop_of data (name tn) = JBool True \<or> prop_of data (name tn) = JStr ''true''))
    \<and> map fst (the_data st)
        = [''file'', ''caption'', ''withBorder'', ''stretched'', ''withBackground'']"
  using constructor_record [OF assms, of config_actions t h a]
  by (auto simp: tunes_def tune_value_eq)

theorem constructor_tunes_boolean_witness:
  "JObj [(''stretched'', JStr ''true''), (''withBorder'', JNum 1)] \<noteq> JUndefined
   \<and> JObj [(''stretched'', JStr ''true''), (''withBorder'', JNum 1)] \<noteq> JNull
   \<and> (\<exists>st. constructor (JObj [(''stretched'', JStr ''true''), (''withBorder'', JNum 1)])
              None id empty_heap 0 = Inr st
         \<and> lookup (the_data st) ''withBorder'' = JBool False
         \<and> lookup (the_data st) ''stretched'' = JBool True
         \<and> lookup (the_data st) ''withBackground'' = JBool False)"
  using constructor_tunes_boolean
    [of "JObj [(''stretched'', JStr ''true''), (''withBorder'', JNum 1)]" None id empty_heap 0]
  by (auto simp: tunes_def)

text \<open>
  C2 with the configured custom actions included does not hold: after the construction of a
  block from the empty record with the custom action \<^verbatim>\<open>rotate\<close>, the settings list
  the four tunes and the active state of \<^verbatim>\<open>rotate\<close> is \<^verbatim>\<open>undefined\<close>, not a boolean.
\<close>

theorem custom_action_undefined:
  "\<not> isl (constructor (JObj [])
        (Some [\<lparr>name = ''rotate'', icon = ''IconRotate'', title = ''Rotate'', toggle = True\<rparr>])
        id empty_heap 0)
   \<and> map c_name (renderSettings (projr (constructor (JObj [])
        (Some [\<lparr>name = ''rotate'', icon = ''IconRotate'', title = ''Rotate'', toggle = True\<rparr>])
        id empty_heap 0)))
      = [''withBorder'', ''stretched'', ''withBackground'', ''rotate'']
   \<and> map c_isActive (renderSettings (projr (constructor (JObj [])
        (Some [\<lparr>name = ''rotate'', icon = ''IconRotate'', title = ''Rotate'', toggle = True\<rparr>])
        id empty_heap 0)))
      = [JBool False, JBool False, JBool False, JUndefined]"
  by (simp add: constructor_projr renderSettings_def tunes_def tune_value_eq)

section \<open>The file field\<close>

text \<open>
  C3, as the code has it. The file setter stores any truthy value as it is, so the
  invariant of the \<^verbatim>\<open>file\<close> field is that of the values supplied: in every state
  reached by construction, upload completion and file setting with file values that
  are falsy, an empty mapping or a mapping with a non-empty \<^verbatim>\<open>url\<close> string (and by
  the operations that do not write the file), the \<^verbatim>\<open>file\<close> field is an empty
  mapping or a mapping with a non-empty \<^verbatim>\<open>url\<close> string.
\<close>

theorem file_invariant:
  "reachable st \<Longrightarrow> file_ok (lookup (the_data st) ''file'')"
proof (induction rule: reachable.induct)
  case (r_constructor data f config_actions t h a st)
  from r_constructor(1) have nn: "data \<noteq> JUndefined" "data \<noteq> JNull" by auto
  from constructor_record [OF nn, of config_actions t h a] r_constructor
  show ?case by (auto simp: get_prop_Inr_prop_of file_ok_or_js simp del: file_ok.simps)
next
  case (r_onUpload st response f stringify st')
  from file_onUpload [OF r_onUpload(4) r_onUpload(2)] r_onUpload(3) r_onUpload.IH
  show ?case by (auto simp: file_ok_or_js simp del: file_ok.simps)
next
  case (r_set_video st f st')
  then show ?case by (auto simp: set_video_Inr Let_def file_ok_or_js simp del: file_ok.simps)
next
  case (r_save st innerHTML)
  then show ?case by (simp add: save_def Let_def)
next
  case (r_setTune st tuneName v)
  then show ?case using tune_names_not_file [of tuneName] by simp
next
  case (r_tuneToggled st tuneName)
  then show ?case using tune_names_not_file [of tuneName] by (simp add: tuneToggled_def)
next
  case (r_onPaste st fetch_blob event st')
  then show ?case by (simp add: the_data_onPaste)
next
  case (r_microtask st block_set)
  then show ?case by (simp add: the_data_run_microtask)
qed simp

theorem file_invariant_witness:
  "reachable (projr (constructor (JObj [(''file'', JObj [(''url'', JStr ''http://x/v.mp4'')])])
      None id empty_heap 0))
   \<and> file_ok (lookup (the_data (projr (constructor
        (JObj [(''file'', JObj [(''url'', JStr ''http://x/v.mp4'')])])
        None id empty_heap 0))) ''file'')"
proof -
  let ?data = "JObj [(''file'', JObj [(''url'', JStr ''http://x/v.mp4'')])]"
  have "\<not> isl (constructor ?data None id empty_heap 0)"
    by (simp add: constructor_projr)
  then have "constructor ?data None id empty_heap 0
      = Inr (projr (constructor ?data None id empty_heap 0))"
    by simp
  moreover have "get_prop ?data ''file'' = Inr (JObj [(''url'', JStr ''http://x/v.mp4'')])"
    by simp
  moreover have "file_input_ok (JObj [(''url'', JStr ''http://x/v.mp4'')])"
    by (simp add: file_input_ok_def)
  ultimately have r: "reachable (projr (constructor ?data None id empty_heap 0))"
    by (rule r_constructor [rotated 2])
  from r file_invariant [OF r] show ?thesis by simp
qed

text \<open>
  C3 for arbitrary input records does not hold: a block constructed from a record whose \<^verbatim>\<open>file\<close> is
  \<^verbatim>\<open>{name: "x"}\<close> holds that mapping, which is not empty and has no \<^verbatim>\<open>url\<close>.
\<close>

theorem file_without_url:
  "\<not> isl (constructor (JObj [(''file'', JObj [(''name'', JStr ''x'')])]) None id empty_heap 0)
   \<and> lookup (the_data (projr (constructor (JObj [(''file'', JObj [(''name'', JStr ''x'')])])
        None id empty_heap 0))) ''file'' = JObj [(''name'', JStr ''x'')]
   \<and> \<not> file_ok (JObj [(''name'', JStr ''x'')])"
  by (simp add: constructor_projr or_js_def)

text \<open>
  C8. For every file value, the file setter returns normally, replaces the \<^verbatim>\<open>file\<close>
  field by the value when it is truthy and by the empty mapping when it is falsy,
  and calls the Presenter's \<^verbatim>\<open>fillVideo\<close> with the value's \<^verbatim>\<open>url\<close> exactly when the
  new \<^verbatim>\<open>file\<close> field has a \<^verbatim>\<open>url\<close> that is not empty (truthy: for a string, not the
  empty string); it makes no other call and queues nothing.
\<close>

theorem set_video_spec:
  "\<exists>st'. set_video fileData st = Inr st'
     \<and> the_data st' =
         AList.update ''file'' (if truthy fileData then fileData else JObj []) (the_data st)
     \<and> effects st' = effects st @
         (if truthy (prop_of (lookup (the_data st') ''file'') ''url'')
          then [FillVideo (prop_of fileData ''url'')] else [])
     \<and> data_ref st' = data_ref st
     \<and> microtasks st' = microtasks st"
  by (simp add: set_video_Inr Let_def or_js_def prop_of_falsy)

theorem set_video_spec_witness:
  "(\<exists>st'. set_video (JObj [(''url'', JStr ''http://x/v.mp4'')]) (init_tool [] id empty_heap 0)
             = Inr st'
      \<and> lookup (the_data st') ''file'' = JObj [(''url'', JStr ''http://x/v.mp4'')]
      \<and> effects st' = [FillVideo (JStr ''http://x/v.mp4'')])
   \<and> (\<exists>st'. set_video JNull (init_tool [] id empty_heap 0) = Inr st'
      \<and> lookup (the_data st') ''file'' = JObj []
      \<and> effects st' = [])"
  using set_video_spec [of "JObj [(''url'', JStr ''http://x/v.mp4'')]" "init_tool [] id empty_heap 0"]
    set_video_spec [of JNull "init_tool [] id empty_heap 0"]
  by auto

section \<open>Upload completion\<close>

text \<open>
  C4. For every Gateway response (a value whose properties can be read: any value
  but \<^verbatim>\<open>undefined\<close> and \<^verbatim>\<open>null\<close>), with \<open>success\<close> and \<open>f\<close> its \<^verbatim>\<open>success\<close> and
  \<^verbatim>\<open>file\<close>: when both are truthy, \<^verbatim>\<open>onUpload\<close> is the file setter applied to \<open>f\<close>;
  otherwise it returns normally after one \<^verbatim>\<open>console.log\<close>, one error notification
  and one \<^verbatim>\<open>hidePreloader\<close>, in this order and with no other call, and leaves the
  block record (so its \<^verbatim>\<open>file\<close> field) and the whole heap unchanged.
\<close>

theorem onUpload_spec:
  assumes "get_prop response ''success'' = Inr success"
    and "get_prop response ''file'' = Inr f"
  shows "(truthy success \<and> truthy f \<longrightarrow> onUpload stringify response st = set_video f st)
    \<and> (\<not> (truthy success \<and> truthy f) \<longrightarrow>
         (\<exists>st'. onUpload stringify response st = Inr st'
            \<and> effects st' = effects st @
                 [ConsoleLog ''Video Tool: uploading failed because of''
                    (JStr (''incorrect response: '' @ stringify response)),
                  NotifierShow (i18n_t st upload_failed_message) ''error'',
                  HidePreloader]
            \<and> the_data st' = the_data st \<and> heap st' = heap st
            \<and> data_ref st' = data_ref st \<and> microtasks st' = microtasks st))"
  using assms by (simp add: onUpload_def Let_def effects_uploadingFailed)

theorem onUpload_spec_witness:
  "onUpload (\<lambda>r. []) (JObj [(''success'', JNum 1), (''file'', JObj [(''url'', JStr ''http://x/v.mp4'')])])
       (init_tool [] id empty_heap 0)
     = set_video (JObj [(''url'', JStr ''http://x/v.mp4'')]) (init_tool [] id empty_heap 0)
   \<and> (\<exists>st'. onUpload (\<lambda>r. []) (JObj [(''success'', JNum 0)]) (init_tool [] id empty_heap 0)
               = Inr st'
        \<and> effects st' =
            [ConsoleLog ''Video Tool: uploading failed because of'' (JStr ''incorrect response: ''),
             NotifierShow upload_failed_message ''error'', HidePreloader]
        \<and> the_data st' = [])"
  using onUpload_spec [of "JObj [(''success'', JNum 1),
        (''file'', JObj [(''url'', JStr ''http://x/v.mp4'')])]" "JNum 1"
      "JObj [(''url'', JStr ''http://x/v.mp4'')]" "\<lambda>r. []" "init_tool [] id empty_heap 0"]
    onUpload_spec [of "JObj [(''success'', JNum 0)]" "JNum 0" JUndefined
      "\<lambda>r. []" "init_tool [] id empty_heap 0"]
  by auto

section \<open>Tunes\<close>

text \<open>
  C5. For every value \<open>v\<close> (so for both booleans), \<^verbatim>\<open>setTune("stretched", v)\<close> writes
  \<open>v\<close> into the record, calls only \<^verbatim>\<open>applyTune\<close>, and queues exactly one job for the
  host's \<^verbatim>\<open>stretched\<close> property. No turn of the queue changes the record. The job
  makes one assignment of \<open>v\<close>; when the assignment throws \<open>err\<close>, the only
  consequence is one \<^verbatim>\<open>console.error(err)\<close> in a later turn: no notification, no
  change of the tune. From an empty queue, two turns run the attempt and its handler.
\<close>

theorem setTune_stretched:
  "lookup (the_data (setTune ''stretched'' v st)) ''stretched'' = v
   \<and> effects (setTune ''stretched'' v st) = effects st @ [ApplyTune ''stretched'' v]
   \<and> microtasks (setTune ''stretched'' v st) = microtasks st @ [StretchJob v]
   \<and> (\<forall>block_set s. the_data (run_microtask block_set s) = the_data s)
   \<and> (\<forall>block_set s rest. microtasks s = StretchJob v # rest \<longrightarrow>
         effects (run_microtask block_set s) = effects s @ [SetBlockStretched v]
         \<and> microtasks (run_microtask block_set s) =
             rest @ (case block_set v of None \<Rightarrow> [] | Some err \<Rightarrow> [CatchJob err]))
   \<and> (\<forall>block_set s err rest. microtasks s = CatchJob err # rest \<longrightarrow>
         effects (run_microtask block_set s) = effects s @ [ConsoleError err]
         \<and> microtasks (run_microtask block_set s) = rest)
   \<and> (\<forall>block_set. microtasks st = [] \<longrightarrow>
         effects (run_microtask block_set (run_microtask block_set (setTune ''stretched'' v st)))
           = effects st @ [ApplyTune ''stretched'' v, SetBlockStretched v]
               @ (case block_set v of None \<Rightarrow> [] | Some err \<Rightarrow> [ConsoleError err])
         \<and> microtasks (run_microtask block_set (run_microtask block_set
               (setTune ''stretched'' v st))) = []
         \<and> the_data (run_microtask block_set (run_microtask block_set
               (setTune ''stretched'' v st))) = the_data (setTune ''stretched'' v st))"
  using stretched_two_steps [of st _ v]
  by (simp add: microtasks_setTune the_data_run_microtask run_StretchJob run_CatchJob)

theorem setTune_stretched_witness:
  "microtasks (init_tool [] id empty_heap 0) = []
   \<and> microtasks (setTune ''stretched'' (JBool True) (init_tool [] id empty_heap 0))
      = [StretchJob (JBool True)]
   \<and> microtasks (run_microtask (\<lambda>v. Some (JStr ''denied''))
        (setTune ''stretched'' (JBool True) (init_tool [] id empty_heap 0)))
      = [CatchJob (JStr ''denied'')]
   \<and> effects (run_microtask (\<lambda>v. Some (JStr ''denied'')) (run_microtask (\<lambda>v. Some (JStr ''denied''))
        (setTune ''stretched'' (JBool True) (init_tool [] id empty_heap 0))))
      = [ApplyTune ''stretched'' (JBool True), SetBlockStretched (JBool True),
         ConsoleError (JStr ''denied'')]
   \<and> the_data (run_microtask (\<lambda>v. Some (JStr ''denied'')) (run_microtask (\<lambda>v. Some (JStr ''denied''))
        (setTune ''stretched'' (JBool True) (init_tool [] id empty_heap 0))))
      = [(''stretched'', JBool True)]"
  using setTune_stretched [of "JBool True" "init_tool [] id empty_heap 0"]
  by simp



section \<open>save\<close>

text \<open>
  C10. \<^verbatim>\<open>save()\<close> returns the address of the record itself, not of a copy; it
  overwrites \<^verbatim>\<open>caption\<close> with the Presenter's caption content and leaves every
  other key of the record (the \<^verbatim>\<open>file\<close> field, every tune), every other object of
  the heap, the calls made and the queue as they were. The caller's reference is an
  alias: a tune set afterwards is read through it.
\<close>

theorem save_frame:
  "fst (save innerHTML st) = data_ref st
   \<and> data_ref (snd (save innerHTML st)) = data_ref st
   \<and> lookup (the_data (snd (save innerHTML st))) ''caption'' = JStr innerHTML
   \<and> (\<forall>k. k \<noteq> ''caption'' \<longrightarrow>
         lookup (the_data (snd (save innerHTML st))) k = lookup (the_data st) k)
   \<and> (\<forall>a. a \<noteq> data_ref st \<longrightarrow> heap (snd (save innerHTML st)) a = heap st a)
   \<and> effects (snd (save innerHTML st)) = effects st
   \<and> microtasks (snd (save innerHTML st)) = microtasks st
   \<and> (\<forall>n v. heap (setTune n v (snd (save innerHTML st))) (fst (save innerHTML st))
         = the_data (setTune n v (snd (save innerHTML st))))"
  by (simp add: save_def Let_def data_get_def heap_set_field heap_setTune)

theorem save_frame_witness:
  "fst (save ''a clip'' (setTune ''withBorder'' (JBool True) (init_tool [] id empty_heap 7))) = 7
   \<and> the_data (snd (save ''a clip'' (setTune ''withBorder'' (JBool True)
        (init_tool [] id empty_heap 7))))
      = [(''withBorder'', JBool True), (''caption'', JStr ''a clip'')]
   \<and> heap (setTune ''stretched'' (JBool True) (snd (save ''a clip''
        (setTune ''withBorder'' (JBool True) (init_tool [] id empty_heap 7))))) 7
      = [(''withBorder'', JBool True), (''caption'', JStr ''a clip''), (''stretched'', JBool True)]"
  using save_frame [of "''a clip''" "setTune ''withBorder'' (JBool True) (init_tool [] id empty_heap 7)"]
  by (simp add: save_def Let_def data_get_def heap_setTune)

section \<open>Paste routing\<close>

text \<open>
  C6. For every paste event (with \<^verbatim>\<open>type\<close>, \<^verbatim>\<open>detail\<close> and the payload read as the
  handler reads them): a \<^verbatim>\<open>tag\<close> event whose video \<^verbatim>\<open>src\<close> is a string that starts
  with \<^verbatim>\<open>blob:\<close> is fetched and the resulting blob goes to \<^verbatim>\<open>uploadFile\<close>; a \<^verbatim>\<open>tag\<close>
  event with any other \<^verbatim>\<open>src\<close> sends that \<^verbatim>\<open>src\<close> to \<^verbatim>\<open>uploadUrl\<close>; a \<^verbatim>\<open>pattern\<close>
  event sends its data to \<^verbatim>\<open>uploadUrl\<close>; a \<^verbatim>\<open>file\<close> event sends its file to
  \<^verbatim>\<open>uploadFile\<close>; an event of any other type returns normally with the state
  unchanged and no call made.
\<close>

theorem onPaste_routes:
  "(get_prop event ''type'' = Inr (JStr ''tag'') \<and> get_prop event ''detail'' = Inr detail
      \<and> get_prop detail ''data'' = Inr video \<and> get_prop video ''src'' = Inr src \<longrightarrow>
      (src = JStr (''blob:'' @ rest) \<and> fetch_blob src = Inr blob \<longrightarrow>
         onPaste fetch_blob event st = Inr (uploadFile blob (emit (Fetch src) st)))
      \<and> ((\<forall>r. src \<noteq> JStr (''blob:'' @ r)) \<longrightarrow>
         onPaste fetch_blob event st = Inr (uploadUrl src st)))
   \<and> (get_prop event ''type'' = Inr (JStr ''pattern'') \<and> get_prop event ''detail'' = Inr detail
      \<and> get_prop detail ''data'' = Inr url \<longrightarrow>
      onPaste fetch_blob event st = Inr (uploadUrl url st))
   \<and> (get_prop event ''type'' = Inr (JStr ''file'') \<and> get_prop event ''detail'' = Inr detail
      \<and> get_prop detail ''file'' = Inr binary \<longrightarrow>
      onPaste fetch_blob event st = Inr (uploadFile binary st))
   \<and> (get_prop event ''type'' = Inr ty \<and> ty \<noteq> JStr ''tag'' \<and> ty \<noteq> JStr ''pattern''
      \<and> ty \<noteq> JStr ''file'' \<longrightarrow>
      onPaste fetch_blob event st = Inr st)"
  by (auto simp: onPaste_def blob_test_iff)

theorem onPaste_routes_witness:
  "onPaste (\<lambda>u. Inr (JObj [(''size'', JNum 3)]))
       (JObj [(''type'', JStr ''tag''),
              (''detail'', JObj [(''data'', JObj [(''src'', JStr ''blob:http://x/1'')])])])
       (init_tool [] id empty_heap 0)
     = Inr (uploadFile (JObj [(''size'', JNum 3)])
         (emit (Fetch (JStr ''blob:http://x/1'')) (init_tool [] id empty_heap 0)))
   \<and> onPaste (\<lambda>u. Inr JNull)
       (JObj [(''type'', JStr ''tag''),
              (''detail'', JObj [(''data'', JObj [(''src'', JStr ''http://x/v.mp4'')])])])
       (init_tool [] id empty_heap 0)
     = Inr (uploadUrl (JStr ''http://x/v.mp4'') (init_tool [] id empty_heap 0))
   \<and> onPaste (\<lambda>u. Inr JNull)
       (JObj [(''type'', JStr ''pattern''), (''detail'', JObj [(''data'', JStr ''http://x/v.mp4'')])])
       (init_tool [] id empty_heap 0)
     = Inr (uploadUrl (JStr ''http://x/v.mp4'') (init_tool [] id empty_heap 0))
   \<and> onPaste (\<lambda>u. Inr JNull)
       (JObj [(''type'', JStr ''file''), (''detail'', JObj [(''file'', JObj [(''size'', JNum 3)])])])
       (init_tool [] id empty_heap 0)
     = Inr (uploadFile (JObj [(''size'', JNum 3)]) (init_tool [] id empty_heap 0))
   \<and> onPaste (\<lambda>u. Inr JNull) (JObj [(''type'', JStr ''keydown'')]) (init_tool [] id empty_heap 0)
     = Inr (init_tool [] id empty_heap 0)"
  using
    onPaste_routes [where event = "JObj [(''type'', JStr ''tag''),
        (''detail'', JObj [(''data'', JObj [(''src'', JStr ''blob:http://x/1'')])])]"
      and detail = "JObj [(''data'', JObj [(''src'', JStr ''blob:http://x/1'')])]"
      and video = "JObj [(''src'', JStr ''blob:http://x/1'')]"
      and src = "JStr ''blob:http://x/1''" and rest = "''http://x/1''"
      and fetch_blob = "\<lambda>u. Inr (JObj [(''size'', JNum 3)])" and blob = "JObj [(''size'', JNum 3)]"
      and st = "init_tool [] id empty_heap 0"]
    onPaste_routes [where event = "JObj [(''type'', JStr ''tag''),
        (''detail'', JObj [(''data'', JObj [(''src'', JStr ''http://x/v.mp4'')])])]"
      and detail = "JObj [(''data'', JObj [(''src'', JStr ''http://x/v.mp4'')])]"
      and video = "JObj [(''src'', JStr ''http://x/v.mp4'')]"
      and src = "JStr ''http://x/v.mp4''"
      and fetch_blob = "\<lambda>u. Inr JNull" and st = "init_tool [] id empty_heap 0"]
    onPaste_routes [where event = "JObj [(''type'', JStr ''pattern''),
        (''detail'', JObj [(''data'', JStr ''http://x/v.mp4'')])]"
      and detail = "JObj [(''data'', JStr ''http://x/v.mp4'')]"
      and url = "JStr ''http://x/v.mp4''"
      and fetch_blob = "\<lambda>u. Inr JNull" and st = "init_tool [] id empty_heap 0"]
    onPaste_routes [where event = "JObj [(''type'', JStr ''file''),
        (''detail'', JObj [(''file'', JObj [(''size'', JNum 3)])])]"
      and detail = "JObj [(''file'', JObj [(''size'', JNum 3)])]"
      and binary = "JObj [(''size'', JNum 3)]"
      and fetch_blob = "\<lambda>u. Inr JNull" and st = "init_tool [] id empty_heap 0"]
    onPaste_routes [where event = "JObj [(''type'', JStr ''keydown'')]"
      and ty = "JStr ''keydown''"
      and fetch_blob = "\<lambda>u. Inr JNull" and st = "init_tool [] id empty_heap 0"]
  by simp

section \<open>The paste pattern\<close>

lemma conc_iff: "x \<in> conc A B \<longleftrightarrow> (\<exists>u v. x = u @ v \<and> u \<in> A \<and> v \<in> B)"
  by (auto simp: conc_def)

lemma Nil_in_conc: "[] \<in> conc A B \<longleftrightarrow> [] \<in> A \<and> [] \<in> B"
  by (auto simp: conc_def)

lemma Cons_in_conc:
  "c # w \<in> conc A B \<longleftrightarrow>
     ([] \<in> A \<and> c # w \<in> B) \<or> (\<exists>u v. w = u @ v \<and> c # u \<in> A \<and> v \<in> B)"
proof
  assume "c # w \<in> conc A B"
  then obtain u v where uv: "c # w = u @ v" "u \<in> A" "v \<in> B"
    by (auto simp: conc_def)
  show "([] \<in> A \<and> c # w \<in> B) \<or> (\<exists>u v. w = u @ v \<and> c # u \<in> A \<and> v \<in> B)"
  proof (cases u)
    case Nil
    with uv show ?thesis by simp
  next
    case (Cons a u')
    with uv show ?thesis by auto
  qed
next
  assume "([] \<in> A \<and> c # w \<in> B) \<or> (\<exists>u v. w = u @ v \<and> c # u \<in> A \<and> v \<in> B)"
  then show "c # w \<in> conc A B"
  proof
    assume "[] \<in> A \<and> c # w \<in> B"
    then have "[] @ (c # w) \<in> conc A B" unfolding conc_def by blast
    then show ?thesis by simp
  next
    assume "\<exists>u v. w = u @ v \<and> c # u \<in> A \<and> v \<in> B"
    then obtain u v where "w = u @ v" "c # u \<in> A" "v \<in> B" by blast
    then have "(c # u) @ v \<in> conc A B" unfolding conc_def by blast
    with \<open>w = u @ v\<close> show ?thesis by simp
  qed
qed

lemma star_Cons_decomp:
  "x \<in> star A \<Longrightarrow> x = c # w \<Longrightarrow> \<exists>u v. w = u @ v \<and> c # u \<in> A \<and> v \<in> star A"
proof (induction arbitrary: c w rule: star.induct)
  case star_Nil
  then show ?case by simp
next
  case (star_app u v)
  show ?case
  proof (cases u)
    case Nil
    with star_app show ?thesis by simp
  next
    case (Cons a u')
    with star_app.prems have "a = c" "w = u' @ v" by simp_all
    with Cons star_app.hyps show ?thesis by blast
  qed
qed

lemma Cons_in_star:
  "c # w \<in> star A \<longleftrightarrow> (\<exists>u v. w = u @ v \<and> c # u \<in> A \<and> v \<in> star A)"
proof
  assume "c # w \<in> star A"
  then show "\<exists>u v. w = u @ v \<and> c # u \<in> A \<and> v \<in> star A"
    by (rule star_Cons_decomp) simp
next
  assume "\<exists>u v. w = u @ v \<and> c # u \<in> A \<and> v \<in> star A"
  then obtain u v where "w = u @ v" "c # u \<in> A" "v \<in> star A" by blast
  then have "(c # u) @ v \<in> star A" by (blast intro: star_app)
  with \<open>w = u @ v\<close> show "c # w \<in> star A" by simp
qed

lemma nullable_iff: "nullable r \<longleftrightarrow> [] \<in> lang ic r"
  by (induction r) (auto simp: Nil_in_conc intro: star_Nil)

lemma lang_deriv: "w \<in> lang ic (deriv ic c r) \<longleftrightarrow> c # w \<in> lang ic r"
proof (induction r arbitrary: w)
  case (Cat r1 r2)
  have "w \<in> lang ic (deriv ic c (Cat r1 r2)) \<longleftrightarrow>
      (\<exists>u v. w = u @ v \<and> c # u \<in> lang ic r1 \<and> v \<in> lang ic r2)
      \<or> (nullable r1 \<and> c # w \<in> lang ic r2)"
    by (auto simp: conc_iff Cat.IH)
  also have "\<dots> \<longleftrightarrow> c # w \<in> conc (lang ic r1) (lang ic r2)"
    by (auto simp: Cons_in_conc nullable_iff [of r1 ic])
  finally show ?case by simp
next
  case (Star r)
  then show ?case
    by (auto simp: Cons_in_star conc_iff)
qed auto

lemma matches_iff: "matches ic r s \<longleftrightarrow> s \<in> lang ic r"
  by (induction s arbitrary: r) (simp_all add: nullable_iff [of _ ic] lang_deriv)

lemma search_iff: "search ic r s \<longleftrightarrow> (\<exists>pre suf. s = pre @ suf \<and> suf \<in> lang ic r)"
proof (induction s)
  case Nil
  then show ?case by (simp add: matches_iff del: matches.simps)
next
  case (Cons c s)
  show ?case
  proof
    assume "search ic r (c # s)"
    then have "c # s \<in> lang ic r \<or> search ic r s"
      by (simp add: lang_deriv matches_iff)
    then show "\<exists>pre suf. c # s = pre @ suf \<and> suf \<in> lang ic r"
    proof
      assume "c # s \<in> lang ic r"
      then have "c # s = [] @ (c # s) \<and> c # s \<in> lang ic r" by simp
      then show ?thesis by blast
    next
      assume "search ic r s"
      with Cons.IH obtain pre suf where "s = pre @ suf" "suf \<in> lang ic r" by blast
      then have "c # s = (c # pre) @ suf \<and> suf \<in> lang ic r" by simp
      then show ?thesis by blast
    qed
  next
    assume "\<exists>pre suf. c # s = pre @ suf \<and> suf \<in> lang ic r"
    then obtain pre suf where ps: "c # s = pre @ suf" "suf \<in> lang ic r" by blast
    show "search ic r (c # s)"
    proof (cases pre)
      case Nil
      with ps have "c # s \<in> lang ic r" by simp
      then show ?thesis by (simp add: lang_deriv matches_iff)
    next
      case (Cons a pre')
      with ps have "s = pre' @ suf" by simp
      with ps Cons.IH have "search ic r s" by blast
      then show ?thesis by simp
    qed
  qed
qed

lemma star_units: "star {[c] | c. P c} = {u. \<forall>c\<in>set u. P c}"
proof (intro equalityI subsetI)
  fix x assume "x \<in> star {[c] | c. P c}"
  then show "x \<in> {u. \<forall>c\<in>set u. P c}"
    by (induction rule: star.induct) auto
next
  fix x assume "x \<in> {u. \<forall>c\<in>set u. P c}"
  then have "\<forall>c\<in>set x. P c" by simp
  then show "x \<in> star {[c] | c. P c}"
  proof (induction x)
    case Nil
    show ?case by (rule star_Nil)
  next
    case (Cons a x)
    then have "[a] \<in> {[c] | c. P c}" and "x \<in> star {[c] | c. P c}" by simp_all
    then have "[a] @ x \<in> star {[c] | c. P c}" by (rule star_app)
    then show ?case by simp
  qed
qed

lemma Cons_in_units_conc:
  "x \<in> conc {[c] | c. P c} B \<longleftrightarrow> (\<exists>c v. x = c # v \<and> P c \<and> v \<in> B)"
proof
  assume "x \<in> conc {[c] | c. P c} B"
  then show "\<exists>c v. x = c # v \<and> P c \<and> v \<in> B"
    by (auto simp: conc_def)
next
  assume "\<exists>c v. x = c # v \<and> P c \<and> v \<in> B"
  then obtain c v where "x = [c] @ v" "P c" "v \<in> B" by auto
  then show "x \<in> conc {[c] | c. P c} B"
    unfolding conc_def by blast
qed

lemma lang_lits: "lang True (lits w) = {u. ci_eq u w}"
proof (induction w)
  case Nil
  show ?case by (auto simp: ci_eq_def cu_def)
next
  case (Cons a w)
  show ?case
    by (auto simp: Cons Cons_in_units_conc ci_eq_def cu_def map_eq_Cons_conv)
qed

lemma lang_alts: "lang ic (alts rs) = (\<Union>r\<in>set rs. lang ic r)"
  by (induction rs rule: alts.induct) auto

lemma lang_optional: "lang ic (optional r) = lang ic r \<union> {[]}"
  by (simp add: optional_def)

lemma lang_one_or_more_NonSpace:
  "lang ic (one_or_more (Atom NonSpace)) = {u. u \<noteq> [] \<and> (\<forall>c\<in>set u. \<not> is_white c)}"
proof -
  have "lang ic (Star (Atom NonSpace)) = {u. \<forall>c\<in>set u. \<not> is_white c}"
    using star_units [of "\<lambda>c. \<not> is_white c"] by simp
  then have "lang ic (one_or_more (Atom NonSpace))
      = conc {[c] | c. \<not> is_white c} {u. \<forall>c\<in>set u. \<not> is_white c}"
    by (simp add: one_or_more_def)
  also have "\<dots> = {u. u \<noteq> [] \<and> (\<forall>c\<in>set u. \<not> is_white c)}"
  proof (intro equalityI subsetI)
    fix x assume "x \<in> conc {[c] | c. \<not> is_white c} {u. \<forall>c\<in>set u. \<not> is_white c}"
    then show "x \<in> {u. u \<noteq> [] \<and> (\<forall>c\<in>set u. \<not> is_white c)}"
      unfolding Cons_in_units_conc by auto
  next
    fix x assume "x \<in> {u. u \<noteq> [] \<and> (\<forall>c\<in>set u. \<not> is_white c)}"
    then show "x \<in> conc {[c] | c. \<not> is_white c} {u. \<forall>c\<in>set u. \<not> is_white c}"
      unfolding Cons_in_units_conc by (cases x) auto
  qed
  finally show ?thesis .
qed

lemma canon_fix: "c < 97 \<or> 122 < c \<Longrightarrow> canon c = c"
  by (auto simp: canon_def)

lemma canon_eq_iff:
  "p < 65 \<or> (90 < p \<and> p < 97) \<or> 122 < p \<Longrightarrow> canon c = canon p \<longleftrightarrow> c = p"
  by (auto simp: canon_def)

lemma Between_ic:
  "atom_match True (Between lo hi) c \<longleftrightarrow>
     (\<exists>a. of_char lo \<le> a \<and> a \<le> of_char hi \<and> canon a = canon c)"
  by (auto simp: list_ex_iff)

lemma Between_letters:
  "atom_match True (Between CHR ''a'' CHR ''z'') c \<longleftrightarrow> (97 \<le> c \<and> c \<le> 122) \<or> (65 \<le> c \<and> c \<le> 90)"
proof -
  have "atom_match True (Between CHR ''a'' CHR ''z'') c \<longleftrightarrow> (\<exists>a. 97 \<le> a \<and> a \<le> 122 \<and> canon a = canon c)"
    using Between_ic [of "CHR ''a''" "CHR ''z''" c] by simp
  also have "\<dots> \<longleftrightarrow> (97 \<le> c \<and> c \<le> 122) \<or> (65 \<le> c \<and> c \<le> 90)"
  proof
    assume "\<exists>a. 97 \<le> a \<and> a \<le> 122 \<and> canon a = canon c"
    then show "(97 \<le> c \<and> c \<le> 122) \<or> (65 \<le> c \<and> c \<le> 90)"
      by (auto simp: canon_def split: if_splits)
  next
    assume c: "(97 \<le> c \<and> c \<le> 122) \<or> (65 \<le> c \<and> c \<le> 90)"
    show "\<exists>a. 97 \<le> a \<and> a \<le> 122 \<and> canon a = canon c"
    proof (cases "97 \<le> c")
      case True
      with c show ?thesis by auto
    next
      case False
      with c have "97 \<le> c + 32 \<and> c + 32 \<le> 122 \<and> canon (c + 32) = canon c"
        by (auto simp: canon_def)
      then show ?thesis by blast
    qed
  qed
  finally show ?thesis .
qed

lemma Between_digits:
  "atom_match True (Between CHR ''0'' CHR ''9'') c \<longleftrightarrow> 48 \<le> c \<and> c \<le> 57"
proof -
  have "atom_match True (Between CHR ''0'' CHR ''9'') c \<longleftrightarrow> (\<exists>a. 48 \<le> a \<and> a \<le> 57 \<and> canon a = canon c)"
    using Between_ic [of "CHR ''0''" "CHR ''9''" c] by simp
  also have "\<dots> \<longleftrightarrow> 48 \<le> c \<and> c \<le> 57"
    by (auto simp: canon_def split: if_splits)
  finally show ?thesis .
qed

lemma lang_query_class:
  "lang True (Star (alts [Atom (Between CHR ''a'' CHR ''z''), Atom (Between CHR ''0'' CHR ''9''),
      Atom (Lit CHR ''='')])) = {q. \<forall>c\<in>set q. query_unit c}"
proof -
  have "lang True (alts [Atom (Between CHR ''a'' CHR ''z''), Atom (Between CHR ''0'' CHR ''9''),
      Atom (Lit CHR ''='')]) = {[c] | c. query_unit c}"
    unfolding lang_alts
    by (auto simp: Between_letters Between_digits query_unit_def canon_eq_iff
          simp del: atom_match.simps(3))
  then show ?thesis
    using star_units [of query_unit] by simp
qed

lemma lang_query:
  "lang True (optional (Cat (Atom (Lit CHR ''?''))
      (Star (alts [Atom (Between CHR ''a'' CHR ''z''), Atom (Between CHR ''0'' CHR ''9''),
        Atom (Lit CHR ''='')]))))
   = {query. query = [] \<or> (\<exists>q. query = cu ''?'' @ q \<and> (\<forall>c\<in>set q. query_unit c))}"
  unfolding lang_optional lang.simps(4) lang_query_class
  by (auto simp: conc_iff canon_eq_iff cu_def)

lemma lang_scheme:
  "conc (lang True (lits ''http'')) (lang True (optional (Atom (Lit CHR ''s''))))
     = {u. ci_eq u ''http'' \<or> ci_eq u ''https''}"
proof (intro equalityI subsetI)
  fix x assume "x \<in> conc (lang True (lits ''http'')) (lang True (optional (Atom (Lit CHR ''s''))))"
  then show "x \<in> {u. ci_eq u ''http'' \<or> ci_eq u ''https''}"
    unfolding lang_lits lang_optional by (auto simp: conc_iff ci_eq_def cu_def)
next
  fix x assume "x \<in> {u. ci_eq u ''http'' \<or> ci_eq u ''https''}"
  then consider "ci_eq x ''http''" | "ci_eq x ''https''" by blast
  then show "x \<in> conc (lang True (lits ''http'')) (lang True (optional (Atom (Lit CHR ''s''))))"
  proof cases
    case 1
    then have "x = x @ [] \<and> x \<in> lang True (lits ''http'')
        \<and> [] \<in> lang True (optional (Atom (Lit CHR ''s'')))"
      unfolding lang_lits lang_optional by simp
    then show ?thesis unfolding conc_iff by blast
  next
    case 2
    then obtain a b c d e where x: "x = [a, b, c, d] @ [e]"
      and "ci_eq [a, b, c, d] ''http''" and "canon e = canon (of_char CHR ''s'')"
      by (auto simp: ci_eq_def cu_def map_eq_Cons_conv)
    then have "[a, b, c, d] \<in> lang True (lits ''http'')"
      and "[e] \<in> lang True (optional (Atom (Lit CHR ''s'')))"
      unfolding lang_lits lang_optional by simp_all
    with x show ?thesis unfolding conc_iff by blast
  qed
qed

lemma lang_sep: "lang True (lits ''://'') = {cu ''://''}"
  unfolding lang_lits
  by (auto simp: ci_eq_def cu_def map_eq_Cons_conv canon_eq_iff)

lemma lang_dot: "lang True (Atom (Lit CHR ''.'')) = {cu ''.''}"
  by (auto simp: cu_def canon_eq_iff)

lemma lang_extensions:
  "lang True (alts (map lits extensions)) = {u. \<exists>e\<in>set extensions. ci_eq u e}"
  unfolding lang_alts by (auto simp: lang_lits simp del: lits.simps)

lemma conc_assoc: "conc A (conc B C) = conc (conc A B) C"
proof (intro equalityI subsetI)
  fix x assume "x \<in> conc A (conc B C)"
  then obtain a b c where "x = a @ b @ c" "a \<in> A" "b \<in> B" "c \<in> C"
    unfolding conc_iff by blast
  then have "x = (a @ b) @ c \<and> a @ b \<in> conc A B \<and> c \<in> C"
    unfolding conc_iff by auto
  then show "x \<in> conc (conc A B) C"
    unfolding conc_iff [of x] by blast
next
  fix x assume "x \<in> conc (conc A B) C"
  then obtain a b c where "x = (a @ b) @ c" "a \<in> A" "b \<in> B" "c \<in> C"
    unfolding conc_iff by blast
  then have "x = a @ (b @ c) \<and> a \<in> A \<and> b @ c \<in> conc B C"
    unfolding conc_iff by auto
  then show "x \<in> conc A (conc B C)"
    unfolding conc_iff [of x] by blast
qed

lemma lang_video_pattern:
  "s \<in> lang True video_pattern \<longleftrightarrow>
     (\<exists>scheme body ext query.
        s = scheme @ cu ''://'' @ body @ cu ''.'' @ ext @ query
        \<and> (ci_eq scheme ''http'' \<or> ci_eq scheme ''https'')
        \<and> body \<noteq> [] \<and> (\<forall>c\<in>set body. \<not> is_white c)
        \<and> (\<exists>e\<in>set extensions. ci_eq ext e)
        \<and> (query = [] \<or> (\<exists>q. query = cu ''?'' @ q \<and> (\<forall>c\<in>set q. query_unit c))))"
proof -
  have "lang True video_pattern =
      conc {u. ci_eq u ''http'' \<or> ci_eq u ''https''}
        (conc {cu ''://''}
          (conc {u. u \<noteq> [] \<and> (\<forall>c\<in>set u. \<not> is_white c)}
            (conc {cu ''.''}
              (conc {u. \<exists>e\<in>set extensions. ci_eq u e}
                {query. query = [] \<or> (\<exists>q. query = cu ''?'' @ q \<and> (\<forall>c\<in>set q. query_unit c))}))))"
    unfolding video_pattern_def lang.simps(4) conc_assoc [of "lang True (lits ''http'')"]
      lang_scheme lang_sep lang_one_or_more_NonSpace lang_dot lang_extensions lang_query
    by (rule refl)
  then show ?thesis
    by (simp add: conc_iff) blast
qed

lemma spec_video_url_first: "spec_video_url s \<Longrightarrow> canon (hd s) = 72"
  by (auto simp: spec_video_url_def ci_eq_def cu_def map_eq_Cons_conv canon_def)

lemma ci_eq_last:
  "ci_eq ext e \<Longrightarrow> e \<noteq> [] \<Longrightarrow> ext \<noteq> [] \<and> canon (last ext) = canon (of_char (last e))"
proof -
  assume a: "ci_eq ext e" and e: "e \<noteq> []"
  from a have m: "map canon ext = map (canon \<circ> of_char) e"
    by (simp add: ci_eq_def cu_def)
  with e have ne: "ext \<noteq> []" by auto
  from m have "last (map canon ext) = last (map (canon \<circ> of_char) e)" by simp
  with e ne show ?thesis by (simp add: last_map)
qed

lemma extension_last:
  "\<exists>e\<in>set extensions. ci_eq ext e \<Longrightarrow> ext \<noteq> [] \<and> canon (last ext) \<in> {73, 86, 77, 52, 83, 71, 66}"
proof -
  assume "\<exists>e\<in>set extensions. ci_eq ext e"
  then obtain e where e: "e \<in> set extensions" and c: "ci_eq ext e" by blast
  from e have "e \<noteq> []" and "canon (of_char (last e)) \<in> {73, 86, 77, 52, 83, 71, 66}"
    by (auto simp: extensions_def canon_def)
  with ci_eq_last [OF c] show ?thesis by simp
qed

lemma spec_video_url_last:
  assumes "spec_video_url s"
  shows "canon (last s) \<in> {73, 86, 77, 52, 83, 71, 66} \<or> last s = 63 \<or> lower_query_unit (last s)"
proof -
  from assms obtain scheme body ext query where
      s: "s = scheme @ cu ''://'' @ body @ cu ''.'' @ ext @ query"
      and ext: "\<exists>e\<in>set extensions. ci_eq ext e"
      and query: "query = [] \<or> (\<exists>q. query = cu ''?'' @ q \<and> (\<forall>c\<in>set q. lower_query_unit c))"
    unfolding spec_video_url_def by blast
  from extension_last [OF ext] have ne: "ext \<noteq> []"
    and le: "canon (last ext) \<in> {73, 86, 77, 52, 83, 71, 66}" by simp_all
  from query show ?thesis
  proof
    assume "query = []"
    with s ne have "last s = last ext" by simp
    with le show ?thesis by simp
  next
    assume "\<exists>q. query = cu ''?'' @ q \<and> (\<forall>c\<in>set q. lower_query_unit c)"
    then obtain q where q: "query = 63 # q" "\<forall>c\<in>set q. lower_query_unit c"
      by (auto simp: cu_def)
    with s have "last s = last (63 # q)" by simp
    with q show ?thesis by (cases "q = []") auto
  qed
qed

lemmas pattern_eval =
  pattern_test_def video_pattern_def cu_def optional_def one_or_more_def extensions_def
  canon_def is_white_def

text \<open>
  C7, as the code has it. The pattern matches a string exactly when the string ends
  with (not necessarily is) \<^verbatim>\<open>http\<close> or \<^verbatim>\<open>https\<close>, \<^verbatim>\<open>://\<close>, a non-empty run without
  white space, a dot and one of the eleven extensions, optionally followed by \<^verbatim>\<open>?\<close>
  and a query of letters, digits and \<^verbatim>\<open>=\<close>; the \<^verbatim>\<open>i\<close> flag makes the scheme, the
  extension and the letters of the query case-insensitive alike. It matches
  \<^verbatim>\<open>https://cdn.example.com/clip.mp4?x=1\<close> and does not match
  \<^verbatim>\<open>https://example.com/doc.pdf\<close>.
\<close>

theorem video_pattern_language:
  "pattern_test s \<longleftrightarrow>
     (\<exists>pre scheme body ext query.
        s = pre @ scheme @ cu ''://'' @ body @ cu ''.'' @ ext @ query
        \<and> (ci_eq scheme ''http'' \<or> ci_eq scheme ''https'')
        \<and> body \<noteq> [] \<and> (\<forall>c\<in>set body. \<not> is_white c)
        \<and> (\<exists>e\<in>set extensions. ci_eq ext e)
        \<and> (query = [] \<or> (\<exists>q. query = cu ''?'' @ q \<and> (\<forall>c\<in>set q. query_unit c))))"
  (is "_ \<longleftrightarrow> ?R")
proof
  assume "pattern_test s"
  then obtain pre suf where s: "s = pre @ suf" and suf: "suf \<in> lang True video_pattern"
    unfolding pattern_test_def search_iff by blast
  from suf obtain scheme body ext query where
      "suf = scheme @ cu ''://'' @ body @ cu ''.'' @ ext @ query"
      "ci_eq scheme ''http'' \<or> ci_eq scheme ''https''"
      "body \<noteq> []" "\<forall>c\<in>set body. \<not> is_white c"
      "\<exists>e\<in>set extensions. ci_eq ext e"
      "query = [] \<or> (\<exists>q. query = cu ''?'' @ q \<and> (\<forall>c\<in>set q. query_unit c))"
    unfolding lang_video_pattern by blast
  with s show ?R by blast
next
  assume ?R
  then obtain pre scheme body ext query where
      s: "s = pre @ scheme @ cu ''://'' @ body @ cu ''.'' @ ext @ query"
      and rest: "ci_eq scheme ''http'' \<or> ci_eq scheme ''https''"
      "body \<noteq> []" "\<forall>c\<in>set body. \<not> is_white c"
      "\<exists>e\<in>set extensions. ci_eq ext e"
      "query = [] \<or> (\<exists>q. query = cu ''?'' @ q \<and> (\<forall>c\<in>set q. query_unit c))"
    by blast
  from rest have "scheme @ cu ''://'' @ body @ cu ''.'' @ ext @ query \<in> lang True video_pattern"
    unfolding lang_video_pattern by blast
  with s show "pattern_test s"
    unfolding pattern_test_def search_iff by blast
qed

theorem video_pattern_language_witness:
  "pattern_test (cu ''https://cdn.example.com/clip.mp4?x=1'')
   \<and> \<not> pattern_test (cu ''https://example.com/doc.pdf'')
   \<and> (\<exists>pre scheme body ext query.
        cu ''https://cdn.example.com/clip.mp4?x=1''
          = pre @ scheme @ cu ''://'' @ body @ cu ''.'' @ ext @ query
        \<and> (ci_eq scheme ''http'' \<or> ci_eq scheme ''https'')
        \<and> body \<noteq> [] \<and> (\<forall>c\<in>set body. \<not> is_white c)
        \<and> (\<exists>e\<in>set extensions. ci_eq ext e)
        \<and> (query = [] \<or> (\<exists>q. query = cu ''?'' @ q \<and> (\<forall>c\<in>set q. query_unit c))))"
proof -
  have m: "pattern_test (cu ''https://cdn.example.com/clip.mp4?x=1'')"
    by (simp add: pattern_eval)
  have n: "\<not> pattern_test (cu ''https://example.com/doc.pdf'')"
    by (simp add: pattern_eval)
  from m n video_pattern_language [of "cu ''https://cdn.example.com/clip.mp4?x=1''"]
  show ?thesis by blast
qed

text \<open>
  C7 with a lower-case query and a match of the whole string does not hold. The
  pattern matches \<^verbatim>\<open>http://a.mp4?A\<close>, whose query has an upper-case letter, and it
  matches \<^verbatim>\<open>xhttp://a.mp4\<close>, which only ends with a URL; neither string is a URL
  of the specified form.
\<close>

theorem video_pattern_not_spec:
  "pattern_test (cu ''http://a.mp4?A'') \<and> \<not> spec_video_url (cu ''http://a.mp4?A'')
   \<and> pattern_test (cu ''xhttp://a.mp4'') \<and> \<not> spec_video_url (cu ''xhttp://a.mp4'')"
proof -
  have "pattern_test (cu ''http://a.mp4?A'')" and "pattern_test (cu ''xhttp://a.mp4'')"
    by (simp_all add: pattern_eval)
  moreover have "\<not> spec_video_url (cu ''http://a.mp4?A'')"
    using spec_video_url_last [of "cu ''http://a.mp4?A''"]
    by (auto simp: cu_def canon_def lower_query_unit_def)
  moreover have "\<not> spec_video_url (cu ''xhttp://a.mp4'')"
    using spec_video_url_first [of "cu ''xhttp://a.mp4''"]
    by (auto simp: cu_def canon_def)
  ultimately show ?thesis by simp
qed

end
